theory Spec2Isabelle
  imports Complex_Main "HOL-Library.Multiset" "HOL-Library.Log_Nat"
begin

section \<open>Data model\<close>

text \<open>
  The program \<^verbatim>\<open>etl.py\<close> reads two JSON datasets into Spark data frames and derives five
  tables. A data frame is a list of rows (the order is the incidental arrival order of the
  rows); a nullable column is an \<open>option\<close>. A \<open>double\<close> is the real number it stands for:
  the columns read from the files are compared by the program only for equality (two finite
  doubles are equal in Spark exactly when they are the same number), and the one
  computation on doubles, \<^verbatim>\<open>ts/1000\<close>, is rounded as binary64 arithmetic rounds it.
\<close>

text \<open>One row of \<^verbatim>\<open>song_data/*/*/*/*.json\<close>, with the columns the program reads.\<close>

record catalog_record =
  song_id :: "string option"
  title :: "string option"
  artist_id :: "string option"
  artist_name :: "string option"
  artist_location :: "string option"
  artist_latitude :: "real option"
  artist_longitude :: "real option"
  year :: "int option"
  duration :: "real option"

text \<open>
  One row of \<^verbatim>\<open>log_data/*.json\<close>. The column \<^verbatim>\<open>length\<close> is the field \<open>length'\<close>
  (the name \<open>length\<close> is the length of a list).
\<close>

record log_event =
  userId :: "string option"
  firstName :: "string option"
  lastName :: "string option"
  gender :: "string option"
  level :: "string option"
  page :: "string option"
  artist :: "string option"
  song :: "string option"
  length' :: "real option"
  ts :: "int option"
  sessionId :: "int option"
  location :: "string option"
  userAgent :: "string option"

text \<open>
  A wall-clock date and time without a zone: what the text \<^verbatim>\<open>yyyy-MM-dd HH:mm:ss\<close>
  produced by \<^verbatim>\<open>from_unixtime\<close> spells out, and what \<^verbatim>\<open>to_timestamp\<close> reads back.
\<close>

record civil =
  c_year :: int
  c_month :: int
  c_day :: int
  c_hour :: int
  c_minute :: int
  c_second :: int

text \<open>The log data frame after the two \<^verbatim>\<open>withColumn\<close> calls (lines 102-107).\<close>

record log_row =
  event :: log_event
  timestamp :: "civil option"
  datetime :: "civil option"

text \<open>The rows of the five output tables, each column under its output name.\<close>

record songs_row =
  s_song_id :: "string option"
  s_title :: "string option"
  s_artist_name :: "string option"
  s_artist_id :: "string option"
  s_year :: "int option"
  s_duration :: "real option"

record artists_row =
  a_artist_id :: "string option"
  a_name :: "string option"
  a_location :: "string option"
  a_latitude :: "real option"
  a_longitude :: "real option"

record users_row =
  u_userId :: "string option"
  u_firstName :: "string option"
  u_lastName :: "string option"
  u_gender :: "string option"
  u_level :: "string option"

record time_row =
  t_datetime :: "civil option"
  t_Hour :: "int option"
  t_DOW :: "string option"
  t_DOM :: "int option"
  t_DOY :: "int option"
  t_Month :: "string option"
  t_year :: "int option"
  t_week :: "int option"

record songplays_row =
  sp_timestamp :: "civil option"
  sp_user_id :: "string option"
  sp_level :: "string option"
  sp_song_id :: "string option"
  sp_artist_id :: "string option"
  sp_session_id :: "int option"
  sp_location :: "string option"
  sp_user_agent :: "string option"
  sp_month :: "string option"
  sp_year :: "int option"
  sp_songplay_id :: int

section \<open>Dates\<close>

text \<open>
  The calendar functions of Spark that the program calls, for the session time zone UTC and
  the proleptic Gregorian calendar. \<open>civil_from_days\<close> turns a count of days since
  1970-01-01 into year, month and day; \<open>days_from_civil\<close> is the inverse direction.
  Days are counted within eras of 400 years that begin on a first of March: \<open>doe\<close> is
  the day of the era, \<open>yoe\<close> the year of the era and \<open>doy\<close> the day of that year.
\<close>

definition yoe_of_doe :: "int \<Rightarrow> int" where
  "yoe_of_doe doe = (doe - doe div 1460 + doe div 36524 - doe div 146096) div 365"

definition year_start :: "int \<Rightarrow> int" where
  "year_start yoe = 365 * yoe + yoe div 4 - yoe div 100"

definition doy_of_doe :: "int \<Rightarrow> int" where
  "doy_of_doe doe = doe - year_start (yoe_of_doe doe)"

definition month_of_doy :: "int \<Rightarrow> int" where
  "month_of_doy doy = (let mp = (5 * doy + 2) div 153 in if mp < 10 then mp + 3 else mp - 9)"

definition day_of_doy :: "int \<Rightarrow> int" where
  "day_of_doy doy = (let mp = (5 * doy + 2) div 153 in doy - (153 * mp + 2) div 5 + 1)"

definition civil_from_days :: "int \<Rightarrow> int \<times> int \<times> int" where
  "civil_from_days z0 =
    (let z = z0 + 719468;
         era = z div 146097;
         doe = z mod 146097;
         doy = doy_of_doe doe;
         m = month_of_doy doy;
         y = yoe_of_doe doe + era * 400
     in (if m \<le> 2 then y + 1 else y, m, day_of_doy doy))"

definition days_from_civil :: "int \<Rightarrow> int \<Rightarrow> int \<Rightarrow> int" where
  "days_from_civil y0 m d =
    (let y = (if m \<le> 2 then y0 - 1 else y0);
         era = y div 400;
         yoe = y mod 400;
         doy = (153 * (if m > 2 then m - 3 else m + 9) + 2) div 5 + d - 1;
         doe = yoe * 365 + yoe div 4 - yoe div 100 + doy
     in era * 146097 + doe - 719468)"

definition civil_of_seconds :: "int \<Rightarrow> civil" where
  "civil_of_seconds s =
    (let (y, m, d) = civil_from_days (s div 86400);
         sod = s mod 86400
     in \<lparr>c_year = y, c_month = m, c_day = d,
         c_hour = sod div 3600, c_minute = (sod mod 3600) div 60, c_second = sod mod 60\<rparr>)"


text \<open>A \<open>double\<close> cast to \<open>bigint\<close>: the fraction is dropped, towards zero.\<close>

definition cast_long :: "real \<Rightarrow> int" where
  "cast_long x = (if 0 \<le> x then \<lfloor>x\<rfloor> else \<lceil>x\<rceil>)"

text \<open>
  \<^verbatim>\<open>from_unixtime(x)\<close> takes seconds since the epoch as a \<open>bigint\<close> (the \<open>double\<close>
  \<^verbatim>\<open>ts/1000\<close> is cast), and renders them as \<^verbatim>\<open>yyyy-MM-dd HH:mm:ss\<close>; null stays null.
\<close>

definition from_unixtime :: "real option \<Rightarrow> civil option" where
  "from_unixtime x = map_option (\<lambda>v. civil_of_seconds (cast_long v)) x"

text \<open>\<^verbatim>\<open>to_timestamp\<close> reads the text \<^verbatim>\<open>yyyy-MM-dd HH:mm:ss\<close> back as a date and time.\<close>

definition to_timestamp :: "civil option \<Rightarrow> civil option" where
  "to_timestamp t = t"

text \<open>
  Binary64 rounding. \<open>exponent x\<close> is the \<open>e\<close> with \<open>2 ^ e \<le> \<bar>x\<bar> < 2 ^ (e + 1)\<close>, and
  \<open>to_double x\<close> the multiple of \<open>2 ^ (e - 52)\<close> nearest to \<open>x\<close>, the one with the even
  multiplier when two are equally near: the double with 53 significant bits that a
  conversion or an arithmetic operation with the exact result \<open>x\<close> returns. Overflow and
  subnormal numbers are left out: they do not occur for a 64-bit integer or its quotient
  by 1000.
\<close>

definition pow2 :: "int \<Rightarrow> real" where
  "pow2 k = (if 0 \<le> k then 2 ^ nat k else 1 / 2 ^ nat (- k))"

definition exponent :: "real \<Rightarrow> int" where
  "exponent x = (if 1 \<le> \<bar>x\<bar> then bitlen \<lfloor>\<bar>x\<bar>\<rfloor> - 1 else - bitlen (\<lceil>1 / \<bar>x\<bar>\<rceil> - 1))"

definition round_half_even :: "real \<Rightarrow> int" where
  "round_half_even r =
    (let f = \<lfloor>r\<rfloor>
     in if r - of_int f < 1 / 2 then f
        else if 1 / 2 < r - of_int f then f + 1
        else if even f then f else f + 1)"

definition to_double :: "real \<Rightarrow> real" where
  "to_double x =
    (if x = 0 then 0
     else (let u = pow2 (exponent x - 52) in of_int (round_half_even (x / u)) * u))"

text \<open>
  The column \<^verbatim>\<open>df.ts/1000\<close>: the \<open>bigint\<close> is converted to a double, and the division of
  doubles rounds its result.
\<close>

definition ts_div_1000 :: "int option \<Rightarrow> real option" where
  "ts_div_1000 t = map_option (\<lambda>v. to_double (to_double (real_of_int v) / 1000)) t"

definition month_names :: "string list" where
  "month_names = [''January'', ''February'', ''March'', ''April'', ''May'', ''June'', ''July'',
     ''August'', ''September'', ''October'', ''November'', ''December'']"

definition day_names :: "string list" where
  "day_names = [''Mon'', ''Tue'', ''Wed'', ''Thu'', ''Fri'', ''Sat'', ''Sun'']"

text \<open>Day of the week, Monday = 1 to Sunday = 7 (1970-01-01 was a Thursday).\<close>

definition iso_dow :: "civil \<Rightarrow> int" where
  "iso_dow c = (days_from_civil (c_year c) (c_month c) (c_day c) + 3) mod 7 + 1"

definition day_of_year :: "civil \<Rightarrow> int" where
  "day_of_year c =
     days_from_civil (c_year c) (c_month c) (c_day c) - days_from_civil (c_year c) 1 1 + 1"

definition weeks_in_year :: "int \<Rightarrow> int" where
  "weeks_in_year y =
    (let p = (\<lambda>v. (v + v div 4 - v div 100 + v div 400) mod 7)
     in if p y = 4 \<or> p (y - 1) = 3 then 53 else 52)"

text \<open>\<^verbatim>\<open>weekofyear\<close>: the ISO 8601 week, whose week 1 holds the year's first Thursday.\<close>

definition iso_week :: "civil \<Rightarrow> int" where
  "iso_week c =
    (let w = (day_of_year c - iso_dow c + 10) div 7
     in if w < 1 then weeks_in_year (c_year c - 1)
        else if w > weeks_in_year (c_year c) then 1
        else w)"

text \<open>The calls \<^verbatim>\<open>date_format(datetime, p)\<close> of the program, one per pattern \<open>p\<close>.\<close>

definition date_format_H :: "civil option \<Rightarrow> int option" where
  "date_format_H t = map_option c_hour t"

definition date_format_E :: "civil option \<Rightarrow> string option" where
  "date_format_E t = map_option (\<lambda>c. day_names ! nat (iso_dow c - 1)) t"

definition date_format_d :: "civil option \<Rightarrow> int option" where
  "date_format_d t = map_option c_day t"

definition date_format_D :: "civil option \<Rightarrow> int option" where
  "date_format_D t = map_option day_of_year t"

definition date_format_MMMM :: "civil option \<Rightarrow> string option" where
  "date_format_MMMM t = map_option (\<lambda>c. month_names ! nat (c_month c - 1)) t"

definition date_format_y :: "civil option \<Rightarrow> int option" where
  "date_format_y t = map_option c_year t"

definition weekofyear :: "civil option \<Rightarrow> int option" where
  "weekofyear t = map_option iso_week t"

section \<open>Data frame operations\<close>

text \<open>
  \<^verbatim>\<open>dropDuplicates\<close> on the columns \<open>key\<close>: one row is kept for every value of the key
  (null is a value like any other), here the first in the order of the list.
\<close>

fun dropDuplicates :: "('a \<Rightarrow> 'k) \<Rightarrow> 'a list \<Rightarrow> 'a list" where
  "dropDuplicates key [] = []"
| "dropDuplicates key (r # rs) = r # dropDuplicates key (filter (\<lambda>x. key x \<noteq> key r) rs)"

text \<open>
  \<^verbatim>\<open>a == b\<close> on two nullable columns in a join or filter condition: it holds only when
  neither side is null and the two values are equal.
\<close>

definition sql_eq :: "'a option \<Rightarrow> 'a option \<Rightarrow> bool" where
  "sql_eq a b = (case (a, b) of (Some x, Some y) \<Rightarrow> x = y | _ \<Rightarrow> False)"

text \<open>
  \<^verbatim>\<open>left.join(right, cond, 'left_outer')\<close>: every left row is paired with each right
  row that satisfies the condition, and with null when none does.
\<close>

definition left_outer_join :: "('l \<Rightarrow> 'r \<Rightarrow> bool) \<Rightarrow> 'l list \<Rightarrow> 'r list \<Rightarrow> ('l \<times> 'r option) list" where
  "left_outer_join cond ls rs =
     concat (map (\<lambda>l. case filter (cond l) rs of
                         [] \<Rightarrow> [(l, None)]
                       | ms \<Rightarrow> map (\<lambda>r. (l, Some r)) ms) ls)"

text \<open>
  \<^verbatim>\<open>monotonically_increasing_id()\<close> for the row at position \<open>i\<close> of a data frame held in
  partitions of \<open>n\<close> rows: the partition number in the upper bits, the position within the
  partition in the lower 33 bits. \<open>n = 0\<close> stands for a single partition.
\<close>

definition monotonically_increasing_id :: "nat \<Rightarrow> nat \<Rightarrow> int" where
  "monotonically_increasing_id n i =
     (if n = 0 then int i else int (i div n) * 2 ^ 33 + int (i mod n))"

section \<open>The sink\<close>

text \<open>
  \<^verbatim>\<open>write.partitionBy(cols).parquet(path, mode = 'overwrite')\<close> replaces what is at the
  path by one directory per combination of values of the partition columns, named
  \<^verbatim>\<open>col=value\<close> for each column in turn, holding the rows with these values. The sink is
  a map from locations to stored tables. A location is the list of the non-empty segments
  of a path between slashes, so that \<^verbatim>\<open>a//b\<close> and \<^verbatim>\<open>a/b\<close> are one location, as they
  are for the file system.
\<close>

datatype pvalue = PNull | PInt int | PStr string

type_synonym partition_dir = "(string \<times> pvalue) list"

definition pint :: "int option \<Rightarrow> pvalue" where
  "pint v = (case v of None \<Rightarrow> PNull | Some i \<Rightarrow> PInt i)"

definition pstr :: "string option \<Rightarrow> pvalue" where
  "pstr v = (case v of None \<Rightarrow> PNull | Some s \<Rightarrow> PStr s)"

definition partitionBy :: "('r \<Rightarrow> partition_dir) \<Rightarrow> 'r list \<Rightarrow> (partition_dir \<times> 'r list) list" where
  "partitionBy dir rows =
     map (\<lambda>d. (d, filter (\<lambda>r. dir r = d) rows)) (remdups (map dir rows))"

datatype parquet =
    SongsParquet "(partition_dir \<times> songs_row list) list"
  | ArtistsParquet "artists_row list"
  | UsersParquet "users_row list"
  | TimeParquet "(partition_dir \<times> time_row list) list"
  | SongplaysParquet "(partition_dir \<times> songplays_row list) list"

fun segments :: "string \<Rightarrow> string \<Rightarrow> string list" where
  "segments acc [] = (if acc = [] then [] else [acc])"
| "segments acc (c # cs) =
     (if c = CHR ''/'' then (if acc = [] then segments [] cs else acc # segments [] cs)
      else segments (acc @ [c]) cs)"

definition path_of :: "string \<Rightarrow> string list" where
  "path_of path = segments [] path"

type_synonym sink = "string list \<rightharpoonup> parquet"

definition write_parquet :: "sink \<Rightarrow> string \<Rightarrow> parquet \<Rightarrow> sink" where
  "write_parquet st path table = st(path_of path \<mapsto> table)"

datatype error = PathDoesNotExist | CannotResolveColumn

text \<open>
  \<^verbatim>\<open>spark.read.parquet(path)\<close> where the program expects the Songs table: the rows of all
  partition directories. It raises when nothing is at the path; a table with other columns
  makes the join condition fail to resolve.
\<close>

definition read_songs_parquet :: "sink \<Rightarrow> string \<Rightarrow> error + songs_row list" where
  "read_songs_parquet st path =
     (case st (path_of path) of
        None \<Rightarrow> Inl PathDoesNotExist
      | Some (SongsParquet parts) \<Rightarrow> Inr (concat (map snd parts))
      | Some _ \<Rightarrow> Inl CannotResolveColumn)"

section \<open>The catalog pipeline: \<^verbatim>\<open>process_song_data\<close>\<close>

definition select_songs :: "catalog_record \<Rightarrow> songs_row" where
  "select_songs r = \<lparr>s_song_id = song_id r, s_title = title r, s_artist_name = artist_name r,
     s_artist_id = artist_id r, s_year = year r, s_duration = duration r\<rparr>"

text \<open>Line 46.\<close>

definition songs_table :: "catalog_record list \<Rightarrow> songs_row list" where
  "songs_table df = dropDuplicates s_song_id (map select_songs df)"

definition songs_dir :: "songs_row \<Rightarrow> partition_dir" where
  "songs_dir r = [(''year'', pint (s_year r)), (''artist_id'', pstr (s_artist_id r))]"

definition select_artists :: "catalog_record \<Rightarrow> artists_row" where
  "select_artists r = \<lparr>a_artist_id = artist_id r, a_name = artist_name r,
     a_location = artist_location r, a_latitude = artist_latitude r,
     a_longitude = artist_longitude r\<rparr>"

text \<open>Lines 53-60: \<^verbatim>\<open>SELECT distinct ... FROM songs\<close>, the view of the whole data frame.\<close>

definition artists_table :: "catalog_record list \<Rightarrow> artists_row list" where
  "artists_table df = dropDuplicates (\<lambda>r. r) (map select_artists df)"

text \<open>
  \<open>df\<close> is the data frame that \<^verbatim>\<open>spark.read.json(song_data)\<close> returns; the function
  returns the sink after its two writes.
\<close>

definition process_song_data :: "sink \<Rightarrow> catalog_record list \<Rightarrow> string \<Rightarrow> sink" where
  "process_song_data st df output_data =
    (let st1 = write_parquet st (output_data @ ''songs/songs.parquet'')
                 (SongsParquet (partitionBy songs_dir (songs_table df)));
         st2 = write_parquet st1 (output_data @ ''/artists/artists.parquet'')
                 (ArtistsParquet (artists_table df))
     in st2)"

section \<open>The event pipeline: \<^verbatim>\<open>process_log_data\<close>\<close>

text \<open>Line 91.\<close>

definition df_filtered :: "log_event list \<Rightarrow> log_event list" where
  "df_filtered df = filter (\<lambda>e. sql_eq (page e) (Some ''NextSong'')) df"

definition select_users :: "log_event \<Rightarrow> users_row" where
  "select_users e = \<lparr>u_userId = userId e, u_firstName = firstName e, u_lastName = lastName e,
     u_gender = gender e, u_level = level e\<rparr>"

text \<open>Line 94.\<close>

definition users_table :: "log_event list \<Rightarrow> users_row list" where
  "users_table df = dropDuplicates (\<lambda>r. r) (map select_users df)"

text \<open>Lines 102-107: the columns \<^verbatim>\<open>timestamp\<close> and \<^verbatim>\<open>datetime\<close> of one row.\<close>

definition with_datetime :: "log_event \<Rightarrow> log_row" where
  "with_datetime e =
    (let t = from_unixtime (ts_div_1000 (ts e))
     in \<lparr>event = e, timestamp = t, datetime = to_timestamp t\<rparr>)"

definition select_time :: "log_row \<Rightarrow> time_row" where
  "select_time r = \<lparr>t_datetime = datetime r, t_Hour = date_format_H (datetime r),
     t_DOW = date_format_E (datetime r), t_DOM = date_format_d (datetime r),
     t_DOY = date_format_D (datetime r), t_Month = date_format_MMMM (datetime r),
     t_year = date_format_y (datetime r), t_week = weekofyear (datetime r)\<rparr>"

text \<open>Lines 110-117, on the filtered data frame with its two new columns.\<close>

definition time_table :: "log_row list \<Rightarrow> time_row list" where
  "time_table rows = dropDuplicates (\<lambda>r. r) (map select_time rows)"

definition time_dir :: "time_row \<Rightarrow> partition_dir" where
  "time_dir r = [(''year'', pint (t_year r)), (''month'', pstr (t_Month r))]"

text \<open>Lines 126-127: the join condition.\<close>

definition join_cond :: "log_row \<Rightarrow> songs_row \<Rightarrow> bool" where
  "join_cond l s \<longleftrightarrow> sql_eq (artist (event l)) (s_artist_name s)
     \<and> sql_eq (song (event l)) (s_title s)
     \<and> sql_eq (length' (event l)) (s_duration s)"

text \<open>Lines 129-139: one row of the join, projected, with its \<^verbatim>\<open>songplay_id\<close>.\<close>

definition select_songplays :: "log_row \<times> songs_row option \<Rightarrow> int \<Rightarrow> songplays_row" where
  "select_songplays j i =
    (case j of (l, m) \<Rightarrow>
      \<lparr>sp_timestamp = timestamp l, sp_user_id = userId (event l), sp_level = level (event l),
       sp_song_id = Option.bind m s_song_id, sp_artist_id = Option.bind m s_artist_id,
       sp_session_id = sessionId (event l), sp_location = location (event l),
       sp_user_agent = userAgent (event l), sp_month = date_format_MMMM (datetime l),
       sp_year = date_format_y (datetime l), sp_songplay_id = i\<rparr>)"

definition songplays_table :: "log_row list \<Rightarrow> songs_row list \<Rightarrow> nat \<Rightarrow> songplays_row list" where
  "songplays_table rows song_df n =
     map (\<lambda>(i, j). select_songplays j (monotonically_increasing_id n i))
       (enumerate 0 (left_outer_join join_cond rows song_df))"

definition songplays_dir :: "songplays_row \<Rightarrow> partition_dir" where
  "songplays_dir r = [(''year'', pint (sp_year r)), (''month'', pstr (sp_month r))]"

text \<open>
  \<open>df\<close> is the data frame that \<^verbatim>\<open>spark.read.json(log_data)\<close> returns and \<open>n\<close> the number of
  rows per partition of the join's result. The function returns the sink as it leaves it
  and the exception it raised, if any: the Users and Time tables are written before the
  Songs table is read. The two new columns are added to the whole data frame
  (\<open>df_datetime\<close>) and to the filtered one (\<open>rows\<close>); only the latter is read afterwards.
\<close>

definition process_log_data :: "sink \<Rightarrow> log_event list \<Rightarrow> nat \<Rightarrow> string \<Rightarrow> sink \<times> error option" where
  "process_log_data st df n output_data =
    (let st1 = write_parquet st (output_data @ ''/users/users.parquet'')
                 (UsersParquet (users_table df));
         df_datetime = map with_datetime df;
         rows = map with_datetime (df_filtered df);
         st2 = write_parquet st1 (output_data @ ''/time/time.parquet'')
                 (TimeParquet (partitionBy time_dir (time_table rows)))
     in case read_songs_parquet st2 (output_data @ ''/songs/songs.parquet'') of
          Inl e \<Rightarrow> (st2, Some e)
        | Inr song_df \<Rightarrow>
            (write_parquet st2 (output_data @ ''/songplays/songplays.parquet'')
               (SongplaysParquet (partitionBy songplays_dir (songplays_table rows song_df n))),
             None))"

section \<open>The entry point\<close>

definition main :: "sink \<Rightarrow> catalog_record list \<Rightarrow> log_event list \<Rightarrow> nat \<Rightarrow> sink \<times> error option" where
  "main st song_df log_df n =
    (let output_data = ''s3a://semsem-dend/'';
         st1 = process_song_data st song_df output_data
     in process_log_data st1 log_df n output_data)"

text \<open>What a reader of the sink finds at a path: the rows of the table there, if any.\<close>

definition stored_songs :: "sink \<Rightarrow> string \<Rightarrow> songs_row list option" where
  "stored_songs st path =
     (case st (path_of path) of Some (SongsParquet ps) \<Rightarrow> Some (concat (map snd ps)) | _ \<Rightarrow> None)"


definition stored_users :: "sink \<Rightarrow> string \<Rightarrow> users_row list option" where
  "stored_users st path =
     (case st (path_of path) of Some (UsersParquet rs) \<Rightarrow> Some rs | _ \<Rightarrow> None)"

definition stored_time :: "sink \<Rightarrow> string \<Rightarrow> time_row list option" where
  "stored_time st path =
     (case st (path_of path) of Some (TimeParquet ps) \<Rightarrow> Some (concat (map snd ps)) | _ \<Rightarrow> None)"

definition stored_songplays :: "sink \<Rightarrow> string \<Rightarrow> songplays_row list option" where
  "stored_songplays st path =
     (case st (path_of path) of Some (SongplaysParquet ps) \<Rightarrow> Some (concat (map snd ps)) | _ \<Rightarrow> None)"

section \<open>Example inputs\<close>

text \<open>A play of song \<open>Y\<close> by artist \<open>X\<close>, and a catalog record of that song.\<close>

definition ev0 :: log_event where
  "ev0 = \<lparr>userId = Some ''26'', firstName = Some ''Ryan'', lastName = Some ''Smith'',
     gender = Some ''M'', level = Some ''free'', page = Some ''NextSong'',
     artist = Some ''X'', song = Some ''Y'', length' = Some 210.5,
     ts = Some 1541106106796, sessionId = Some 583, location = Some ''San Jose'',
     userAgent = Some ''Mozilla''\<rparr>"

definition cat1 :: catalog_record where
  "cat1 = \<lparr>song_id = Some ''S1'', title = Some ''Y'', artist_id = Some ''A1'',
     artist_name = Some ''X'', artist_location = Some ''Oslo'', artist_latitude = None,
     artist_longitude = None, year = Some 2001, duration = Some 210.5\<rparr>"

section \<open>Properties of the data frame operations\<close>

lemma dropDuplicates_subset: "set (dropDuplicates key xs) \<subseteq> set xs"
  by (induction key xs rule: dropDuplicates.induct) auto

lemma dropDuplicates_keys: "key ` set (dropDuplicates key xs) = key ` set xs"
proof (induction key xs rule: dropDuplicates.induct)
  case (1 key)
  show ?case by simp
next
  case (2 key r rs)
  have "key ` set (r # rs) = insert (key r) (key ` set (filter (\<lambda>x. key x \<noteq> key r) rs))"
    by auto
  with 2 show ?case by simp
qed

lemma dropDuplicates_distinct: "distinct (map key (dropDuplicates key xs))"
proof (induction key xs rule: dropDuplicates.induct)
  case (1 key)
  show ?case by simp
next
  case (2 key r rs)
  have "key r \<notin> key ` set (dropDuplicates key (filter (\<lambda>x. key x \<noteq> key r) rs))"
    unfolding dropDuplicates_keys by auto
  with 2 show ?case by simp
qed

lemma dropDuplicates_rows: "set (dropDuplicates (\<lambda>r. r) xs) = set xs"
  using dropDuplicates_keys [of "\<lambda>r. r" xs] by simp

lemma dropDuplicates_rows_distinct: "distinct (dropDuplicates (\<lambda>r. r) xs)"
  using dropDuplicates_distinct [of "\<lambda>r. r" xs] by simp

lemma concat_filter_keys:
  "distinct ds \<Longrightarrow> dir ` set rows \<subseteq> set ds \<Longrightarrow>
   mset (concat (map (\<lambda>d. filter (\<lambda>r. dir r = d) rows) ds)) = mset rows"
proof (induction ds arbitrary: rows)
  case Nil
  then show ?case by simp
next
  case (Cons d ds)
  let ?rest = "filter (\<lambda>r. dir r \<noteq> d) rows"
  have same: "map (\<lambda>d'. filter (\<lambda>r. dir r = d') rows) ds
      = map (\<lambda>d'. filter (\<lambda>r. dir r = d') ?rest) ds"
  proof (rule map_cong [OF refl])
    fix d' assume "d' \<in> set ds"
    with Cons.prems(1) have "d' \<noteq> d" by auto
    then show "filter (\<lambda>r. dir r = d') rows = filter (\<lambda>r. dir r = d') ?rest"
      by (auto simp: filter_filter intro: filter_cong)
  qed
  have "dir ` set ?rest \<subseteq> set ds" using Cons.prems(2) by auto
  moreover have "distinct ds" using Cons.prems(1) by simp
  ultimately have "mset (concat (map (\<lambda>d'. filter (\<lambda>r. dir r = d') ?rest) ds)) = mset ?rest"
    by (rule Cons.IH [rotated])
  then have "mset (concat (map (\<lambda>d'. filter (\<lambda>r. dir r = d') rows) ds)) = mset ?rest"
    by (simp only: same)
  moreover have "mset (filter (\<lambda>r. dir r = d) rows) + mset ?rest = mset rows"
    by (induction rows) auto
  ultimately show ?case by simp
qed

text \<open>Writing a table in partitions and reading it back gives the same rows, regrouped.\<close>

lemma mset_partitionBy: "mset (concat (map snd (partitionBy dir rows))) = mset rows"
proof -
  have "map snd (partitionBy dir rows)
      = map (\<lambda>d. filter (\<lambda>r. dir r = d) rows) (remdups (map dir rows))"
    by (simp add: partitionBy_def comp_def)
  then show ?thesis
    using concat_filter_keys [of "remdups (map dir rows)" dir rows] by simp
qed

lemma set_partitionBy: "set (concat (map snd (partitionBy dir rows))) = set rows"
  using mset_partitionBy [of dir rows] by (metis set_mset_mset)

lemma length_partitionBy: "length (concat (map snd (partitionBy dir rows))) = length rows"
  using mset_partitionBy [of dir rows] by (metis size_mset)

lemma partitionBy_dir:
  "(d, rs) \<in> set (partitionBy dir rows) \<Longrightarrow> r \<in> set rs \<Longrightarrow> dir r = d \<and> r \<in> set rows"
  by (auto simp: partitionBy_def)

lemma segments_append_slash:
  "segments acc (xs @ CHR ''/'' # ys) = segments acc xs @ segments [] ys"
  by (induction xs arbitrary: acc) auto

lemma path_of_append_slash: "path_of (xs @ CHR ''/'' # ys) = path_of xs @ path_of ys"
  by (simp add: path_of_def segments_append_slash)

lemma main_paths:
  "path_of (''s3a://semsem-dend/'' @ ''songs/songs.parquet'')
     = [''s3a:'', ''semsem-dend'', ''songs'', ''songs.parquet'']"
  "path_of (''s3a://semsem-dend/'' @ ''/songs/songs.parquet'')
     = [''s3a:'', ''semsem-dend'', ''songs'', ''songs.parquet'']"
  "path_of (''s3a://semsem-dend/'' @ ''/artists/artists.parquet'')
     = [''s3a:'', ''semsem-dend'', ''artists'', ''artists.parquet'']"
  "path_of (''s3a://semsem-dend/'' @ ''/users/users.parquet'')
     = [''s3a:'', ''semsem-dend'', ''users'', ''users.parquet'']"
  "path_of (''s3a://semsem-dend/'' @ ''/time/time.parquet'')
     = [''s3a:'', ''semsem-dend'', ''time'', ''time.parquet'']"
  "path_of (''s3a://semsem-dend/'' @ ''/songplays/songplays.parquet'')
     = [''s3a:'', ''semsem-dend'', ''songplays'', ''songplays.parquet'']"
  by (simp_all add: path_of_def)

lemma out_paths:
  "path_of (out @ ''/users/users.parquet'') = path_of out @ [''users'', ''users.parquet'']"
  "path_of (out @ ''/time/time.parquet'') = path_of out @ [''time'', ''time.parquet'']"
  "path_of (out @ ''/songs/songs.parquet'') = path_of out @ [''songs'', ''songs.parquet'']"
  "path_of (out @ ''/songplays/songplays.parquet'')
     = path_of out @ [''songplays'', ''songplays.parquet'']"
  "path_of (out @ ''/artists/artists.parquet'') = path_of out @ [''artists'', ''artists.parquet'']"
  by (simp_all only: path_of_append_slash) (simp_all add: path_of_def)

lemma left_outer_join_Nil [simp]: "left_outer_join c [] rs = []"
  by (simp add: left_outer_join_def)

lemma left_outer_join_Cons:
  "left_outer_join c (l # ls) rs =
     (case filter (c l) rs of [] \<Rightarrow> [(l, None)] | ms \<Rightarrow> map (\<lambda>r. (l, Some r)) ms)
     @ left_outer_join c ls rs"
  by (simp add: left_outer_join_def)

lemma length_left_outer_join:
  "length (left_outer_join c ls rs) = (\<Sum>l\<leftarrow>ls. max 1 (length (filter (c l) rs)))"
  by (induction ls) (auto simp: left_outer_join_Cons split: list.split)

lemma length_left_outer_join_ge: "length ls \<le> length (left_outer_join c ls rs)"
  by (induction ls) (auto simp: left_outer_join_Cons split: list.split)

lemma length_left_outer_join_eq:
  "\<forall>l\<in>set ls. length (filter (c l) rs) \<le> 1 \<Longrightarrow> length (left_outer_join c ls rs) = length ls"
  by (induction ls) (auto simp: left_outer_join_Cons split: list.split)

lemma set_left_outer_join:
  "(l, m) \<in> set (left_outer_join c ls rs) \<longleftrightarrow>
     l \<in> set ls \<and> (case m of None \<Rightarrow> \<forall>r\<in>set rs. \<not> c l r | Some r \<Rightarrow> r \<in> set rs \<and> c l r)"
proof (induction ls)
  case Nil
  show ?case by simp
next
  case (Cons a ls)
  have "filter (c a) rs = [] \<longleftrightarrow> (\<forall>r\<in>set rs. \<not> c a r)"
    by (simp add: filter_empty_conv)
  moreover have "set (filter (c a) rs) = {r \<in> set rs. c a r}" by simp
  ultimately show ?case using Cons
    by (cases "filter (c a) rs"; cases m) (auto simp: left_outer_join_Cons)
qed

lemma length_filter_mset_cong:
  "mset xs = mset ys \<Longrightarrow> length (filter P xs) = length (filter P ys)"
  by (metis mset_filter size_mset)

lemma map_snd_enumerate: "map (\<lambda>p. f (snd p)) (enumerate k xs) = map f xs"
  by (induction xs arbitrary: k) simp_all

lemma length_songplays_table:
  "length (songplays_table rows song_df n) = length (left_outer_join join_cond rows song_df)"
  by (simp add: songplays_table_def)

text \<open>The Songplays rows with the \<open>songplay_id\<close> blanked are the projected rows of the join.\<close>

lemma songplays_table_without_id:
  "map (\<lambda>r. r\<lparr>sp_songplay_id := 0\<rparr>) (songplays_table rows song_df n)
     = map (\<lambda>j. select_songplays j 0) (left_outer_join join_cond rows song_df)"
proof -
  have "map (\<lambda>r. r\<lparr>sp_songplay_id := 0\<rparr>) (songplays_table rows song_df n)
      = map (\<lambda>p. select_songplays (snd p) 0)
          (enumerate 0 (left_outer_join join_cond rows song_df))"
    by (simp add: songplays_table_def select_songplays_def split_def)
  then show ?thesis
    using map_snd_enumerate
      [of "\<lambda>j. select_songplays j 0" 0 "left_outer_join join_cond rows song_df"]
    by simp
qed
















text \<open>Above \<open>2 ^ 53\<close> the conversion to a double rounds, here to the next second.\<close>

lemma ts_div_1000_rounds:
  "cast_long (to_double (to_double (real_of_int 9007199254740999) / 1000)) = 9007199254741"
  by code_simp

section \<open>What the two functions leave in the sink\<close>

lemma process_log_data_users:
  "fst (process_log_data st df n out) (path_of (out @ ''/users/users.parquet''))
     = Some (UsersParquet (users_table df))"
  unfolding process_log_data_def write_parquet_def read_songs_parquet_def Let_def out_paths
  by (simp split: sum.split option.split parquet.split)

lemma process_song_data_artists:
  "process_song_data st df out (path_of (out @ ''/artists/artists.parquet''))
     = Some (ArtistsParquet (artists_table df))"
  by (simp add: process_song_data_def write_parquet_def Let_def)

text \<open>
  \<open>main\<close> never raises: the Songs table it reads is the one it has just written, since
  \<^verbatim>\<open>s3a://semsem-dend/songs/songs.parquet\<close> and \<^verbatim>\<open>s3a://semsem-dend//songs/songs.parquet\<close>
  are one location.
\<close>

lemma main_result:
  "snd (main st cat ev n) = None"
  "fst (main st cat ev n) [''s3a:'', ''semsem-dend'', ''songplays'', ''songplays.parquet'']
     = Some (SongplaysParquet (partitionBy songplays_dir
         (songplays_table (map with_datetime (df_filtered ev))
            (concat (map snd (partitionBy songs_dir (songs_table cat)))) n)))"
  "fst (main st cat ev n) [''s3a:'', ''semsem-dend'', ''songs'', ''songs.parquet'']
     = Some (SongsParquet (partitionBy songs_dir (songs_table cat)))"
  "fst (main st cat ev n) [''s3a:'', ''semsem-dend'', ''artists'', ''artists.parquet'']
     = Some (ArtistsParquet (artists_table cat))"
  "fst (main st cat ev n) [''s3a:'', ''semsem-dend'', ''users'', ''users.parquet'']
     = Some (UsersParquet (users_table ev))"
  "fst (main st cat ev n) [''s3a:'', ''semsem-dend'', ''time'', ''time.parquet'']
     = Some (TimeParquet (partitionBy time_dir
         (time_table (map with_datetime (df_filtered ev)))))"
  unfolding main_def process_song_data_def process_log_data_def write_parquet_def
    read_songs_parquet_def Let_def main_paths
  by simp_all

lemma stored_songplays_main:
  "stored_songplays (fst (main st cat ev n)) ''s3a://semsem-dend/songplays/songplays.parquet''
     = Some (concat (map snd (partitionBy songplays_dir
         (songplays_table (map with_datetime (df_filtered ev))
            (concat (map snd (partitionBy songs_dir (songs_table cat)))) n))))"
proof -
  have "path_of ''s3a://semsem-dend/songplays/songplays.parquet''
      = [''s3a:'', ''semsem-dend'', ''songplays'', ''songplays.parquet'']"
    by (simp add: path_of_def)
  then show ?thesis
    by (simp only: stored_songplays_def main_result(2) option.case parquet.case)
qed

lemma process_log_data_no_songs:
  "st (path_of (out @ ''/songs/songs.parquet'')) = None \<Longrightarrow>
     process_log_data st df n out =
       ((st(path_of (out @ ''/users/users.parquet'') \<mapsto> UsersParquet (users_table df)))
          (path_of (out @ ''/time/time.parquet'') \<mapsto>
             TimeParquet (partitionBy time_dir (time_table (map with_datetime (df_filtered df))))),
        Some PathDoesNotExist)"
  unfolding process_log_data_def write_parquet_def read_songs_parquet_def Let_def out_paths
  by simp

lemma process_log_data_songs:
  "st (path_of (out @ ''/songs/songs.parquet'')) = Some (SongsParquet ps) \<Longrightarrow>
     process_log_data st df n out =
       (((st(path_of (out @ ''/users/users.parquet'') \<mapsto> UsersParquet (users_table df)))
          (path_of (out @ ''/time/time.parquet'') \<mapsto>
             TimeParquet (partitionBy time_dir (time_table (map with_datetime (df_filtered df))))))
          (path_of (out @ ''/songplays/songplays.parquet'') \<mapsto>
             SongplaysParquet (partitionBy songplays_dir
               (songplays_table (map with_datetime (df_filtered df)) (concat (map snd ps)) n))),
        None)"
  unfolding process_log_data_def write_parquet_def read_songs_parquet_def Let_def out_paths
  by simp

section \<open>Months\<close>

text \<open>
  The year of the era computed by \<open>yoe_of_doe\<close> is the year in which the day falls: the
  function is monotone, and it is checked at the first and last day of each of the 400
  years. Hence the day of the year lies between 0 and 365 and the month between 1 and 12.
\<close>

lemma yoe_boundaries:
  "\<forall>y \<in> set [0..399]. yoe_of_doe (year_start y) = y"
  by code_simp

lemma yoe_boundaries':
  "\<forall>y \<in> set [1..399]. yoe_of_doe (year_start y - 1) = y - 1"
  by code_simp

lemma yoe_mono:
  assumes "0 \<le> n" "n \<le> m" "m < 146096"
  shows "yoe_of_doe n \<le> yoe_of_doe m"
proof -
  have a: "m div 1460 \<le> n div 1460 + (m - n)" using assms by arith
  have b: "n div 36524 \<le> m div 36524" using assms by (simp add: zdiv_mono1)
  have c: "n div 146096 = 0" "m div 146096 = 0" using assms by simp_all
  have "n - n div 1460 + n div 36524 - n div 146096 \<le> m - m div 1460 + m div 36524 - m div 146096"
    using a b c by linarith
  then show ?thesis unfolding yoe_of_doe_def by (rule zdiv_mono1) simp
qed

lemma year_start_step: "year_start (y + 1) \<le> year_start y + 366"
proof -
  define a b c d where "a = (y + 1) div 4" and "b = y div 4"
    and "c = (y + 1) div 100" and "d = y div 100"
  have "a \<le> b + 1" unfolding a_def b_def by arith
  moreover have "d \<le> c" unfolding c_def d_def by (rule zdiv_mono1) simp_all
  ultimately have "365 * (y + 1) + a - c \<le> 365 * y + b - d + 366"
    by (simp add: distrib_left)
  then show ?thesis by (simp only: year_start_def a_def b_def c_def d_def)
qed

lemma year_start_bounds:
  assumes "0 \<le> y"
  shows "0 \<le> year_start y" and "y \<le> 399 \<Longrightarrow> year_start y \<le> 145734"
proof -
  define a c where "a = y div 4" and "c = y div 100"
  have a0: "0 \<le> a" unfolding a_def using assms by simp
  have cy: "c \<le> y" unfolding c_def using assms by arith
  have c0: "0 \<le> c" unfolding c_def using assms by simp
  from a0 cy have "0 \<le> 365 * y + a - c" using assms by linarith
  then show "0 \<le> year_start y" by (simp only: year_start_def a_def c_def)
  assume "y \<le> 399"
  then have "a \<le> 99" unfolding a_def by arith
  with c0 \<open>y \<le> 399\<close> have "365 * y + a - c \<le> 145734" by linarith
  then show "year_start y \<le> 145734" by (simp only: year_start_def a_def c_def)
qed

lemma doy_bounds:
  assumes "0 \<le> n" "n < 146097"
  shows "0 \<le> doy_of_doe n \<and> doy_of_doe n \<le> 365"
proof (cases "n = 146096")
  case True
  have "doy_of_doe 146096 = 365" by code_simp
  with True show ?thesis by simp
next
  case False
  with assms(2) have n: "n < 146096" by simp
  define y where "y = yoe_of_doe n"
  have "yoe_of_doe 0 = 0" by code_simp
  with yoe_mono [of 0 n] assms(1) n have y0: "0 \<le> y" by (simp add: y_def)
  have "yoe_of_doe 146095 = 399" by code_simp
  with yoe_mono [of n 146095] assms(1) n have y399: "y \<le> 399" by (simp add: y_def)
  have lower: "year_start y \<le> n"
  proof (rule ccontr)
    assume "\<not> year_start y \<le> n"
    then have lt: "n \<le> year_start y - 1" by simp
    have "year_start 0 = 0" by (simp add: year_start_def)
    with lt assms(1) have "y \<noteq> 0" by auto
    with y0 y399 have "y \<in> set [1..399]" by simp
    from yoe_boundaries' [rule_format, OF this]
    have b: "yoe_of_doe (year_start y - 1) = y - 1" .
    have "year_start y - 1 < 146096" using year_start_bounds(2) [OF y0 y399] by simp
    from yoe_mono [OF assms(1) lt this] have "y \<le> y - 1" by (simp only: b y_def [symmetric])
    then show False by simp
  qed
  have upper: "n \<le> year_start y + 365"
  proof (rule ccontr)
    assume "\<not> n \<le> year_start y + 365"
    then have gt: "year_start y + 366 \<le> n" by simp
    have "year_start 399 = 145731" by (simp add: year_start_def)
    with gt n have "y \<noteq> 399" by auto
    with y0 y399 have "y + 1 \<in> set [0..399]" by simp
    from yoe_boundaries [rule_format, OF this]
    have b: "yoe_of_doe (year_start (y + 1)) = y + 1" .
    from year_start_step [of y] gt have le: "year_start (y + 1) \<le> n" by (rule order_trans)
    have "0 \<le> year_start (y + 1)" using y0 by (intro year_start_bounds(1)) simp
    from yoe_mono [OF this le n] have "y + 1 \<le> y" by (simp only: b y_def [symmetric])
    then show False by simp
  qed
  from lower upper show ?thesis by (simp add: doy_of_doe_def y_def)
qed

lemma month_of_doy_range: "0 \<le> doy \<Longrightarrow> doy \<le> 365 \<Longrightarrow> 1 \<le> month_of_doy doy \<and> month_of_doy doy \<le> 12"
proof -
  assume "0 \<le> doy" "doy \<le> 365"
  define mp where "mp = (5 * doy + 2) div 153"
  from \<open>0 \<le> doy\<close> \<open>doy \<le> 365\<close> have "0 \<le> mp" "mp \<le> 11" unfolding mp_def by arith+
  then show ?thesis by (simp add: month_of_doy_def Let_def mp_def [symmetric])
qed

lemma month_of_seconds: "1 \<le> c_month (civil_of_seconds s) \<and> c_month (civil_of_seconds s) \<le> 12"
proof -
  define doe where "doe = (s div 86400 + 719468) mod 146097"
  have "0 \<le> doe" "doe < 146097" by (simp_all add: doe_def)
  from doy_bounds [OF this] have "1 \<le> month_of_doy (doy_of_doe doe) \<and> month_of_doy (doy_of_doe doe) \<le> 12"
    by (intro month_of_doy_range) simp_all
  moreover have "c_month (civil_of_seconds s) = month_of_doy (doy_of_doe doe)"
    by (simp add: civil_of_seconds_def civil_from_days_def Let_def doe_def)
  ultimately show ?thesis by simp
qed

lemma month_name_full: "1 \<le> m \<Longrightarrow> m \<le> 12 \<Longrightarrow> month_names ! nat (m - 1) \<in> set month_names"
  by (rule nth_mem) (simp add: month_names_def)

lemma month_of_row:
  "date_format_MMMM (datetime (with_datetime e)) \<in> insert None (Some ` set month_names)"
proof (cases "ts e")
  case None
  then show ?thesis
    by (simp add: with_datetime_def Let_def to_timestamp_def from_unixtime_def ts_div_1000_def
        date_format_MMMM_def)
next
  case (Some t)
  define c where "c = civil_of_seconds (cast_long (to_double (to_double (real_of_int t) / 1000)))"
  have "1 \<le> c_month c \<and> c_month c \<le> 12" unfolding c_def by (rule month_of_seconds)
  then have "month_names ! nat (c_month c - 1) \<in> set month_names"
    by (intro month_name_full) simp_all
  moreover from Some have "date_format_MMMM (datetime (with_datetime e))
      = Some (month_names ! nat (c_month c - 1))"
    by (simp add: with_datetime_def Let_def to_timestamp_def from_unixtime_def ts_div_1000_def
        date_format_MMMM_def c_def)
  ultimately show ?thesis by simp
qed

lemma time_table_month:
  "r \<in> set (time_table (map with_datetime df)) \<Longrightarrow> t_Month r \<in> insert None (Some ` set month_names)"
proof -
  assume "r \<in> set (time_table (map with_datetime df))"
  then obtain e where "r = select_time (with_datetime e)"
    by (auto simp: time_table_def dropDuplicates_rows)
  then have "t_Month r = date_format_MMMM (datetime (with_datetime e))"
    by (simp add: select_time_def)
  with month_of_row [of e] show ?thesis by simp
qed

lemma songplays_table_month:
  "r \<in> set (songplays_table (map with_datetime df) song_df n) \<Longrightarrow>
     sp_month r \<in> insert None (Some ` set month_names)"
proof -
  let ?J = "left_outer_join join_cond (map with_datetime df) song_df"
  assume "r \<in> set (songplays_table (map with_datetime df) song_df n)"
  then obtain p where p: "p \<in> set (enumerate 0 ?J)"
    and r': "r = select_songplays (snd p) (monotonically_increasing_id n (fst p))"
    by (auto simp: songplays_table_def)
  from p have "fst p < length ?J" and "?J ! fst p = snd p"
    by (simp_all add: in_set_enumerate_eq)
  then have "snd p \<in> set ?J" by (metis nth_mem)
  moreover obtain l m where lm: "snd p = (l, m)" by (cases "snd p")
  ultimately have "(l, m) \<in> set ?J" by simp
  from r' lm have r: "r = select_songplays (l, m) (monotonically_increasing_id n (fst p))"
    by simp
  from \<open>(l, m) \<in> set ?J\<close> have "l \<in> set (map with_datetime df)"
    by (simp add: set_left_outer_join)
  then obtain e where "l = with_datetime e" by auto
  with r have "sp_month r = date_format_MMMM (datetime (with_datetime e))"
    by (simp add: select_songplays_def)
  with month_of_row [of e] show ?thesis by simp
qed







section \<open>The rows of the stored tables\<close>




lemma event_with_datetime: "event (with_datetime e) = e"
  by (simp add: with_datetime_def Let_def)

lemma join_cond_fields:
  "join_cond (with_datetime e) s \<longleftrightarrow>
     artist e \<noteq> None \<and> artist e = s_artist_name s \<and> song e \<noteq> None \<and> song e = s_title s
     \<and> length' e \<noteq> None \<and> length' e = s_duration s"
  by (auto simp: join_cond_def sql_eq_def event_with_datetime split: option.splits)

lemma df_filtered_iff: "e \<in> set (df_filtered ev) \<longleftrightarrow> e \<in> set ev \<and> page e = Some ''NextSong''"
  by (cases "page e") (simp_all add: df_filtered_def sql_eq_def)

lemma stored_songplays_rows:
  "set (map (\<lambda>r. r\<lparr>sp_songplay_id := 0\<rparr>)
        (concat (map snd (partitionBy songplays_dir
           (songplays_table (map with_datetime (df_filtered ev))
              (concat (map snd (partitionBy songs_dir (songs_table cat)))) n)))))
   = {select_songplays (with_datetime e, m) 0 | e m.
        e \<in> set ev \<and> page e = Some ''NextSong''
        \<and> (case m of
             None \<Rightarrow> \<forall>s \<in> set (songs_table cat).
                \<not> (artist e \<noteq> None \<and> artist e = s_artist_name s \<and> song e \<noteq> None
                   \<and> song e = s_title s \<and> length' e \<noteq> None \<and> length' e = s_duration s)
           | Some s \<Rightarrow> s \<in> set (songs_table cat)
                \<and> artist e \<noteq> None \<and> artist e = s_artist_name s \<and> song e \<noteq> None
                \<and> song e = s_title s \<and> length' e \<noteq> None \<and> length' e = s_duration s)}"
  (is "?L = ?R")
proof -
  let ?plays = "map with_datetime (df_filtered ev)"
  let ?song_df = "concat (map snd (partitionBy songs_dir (songs_table cat)))"
  let ?J = "left_outer_join join_cond ?plays ?song_df"
  have "?L = (\<lambda>r. r\<lparr>sp_songplay_id := 0\<rparr>) ` set (songplays_table ?plays ?song_df n)"
    by (simp only: set_map set_partitionBy)
  also have "\<dots> = set (map (\<lambda>r. r\<lparr>sp_songplay_id := 0\<rparr>) (songplays_table ?plays ?song_df n))"
    by simp
  also have "\<dots> = (\<lambda>j. select_songplays j 0) ` set ?J"
    by (simp only: songplays_table_without_id set_map)
  finally have L: "?L = (\<lambda>j. select_songplays j 0) ` set ?J" .
  define F where "F e s \<longleftrightarrow> artist e \<noteq> None \<and> artist e = s_artist_name s \<and> song e \<noteq> None
      \<and> song e = s_title s \<and> length' e \<noteq> None \<and> length' e = s_duration s"
    for e :: log_event and s :: songs_row
  have jc: "join_cond (with_datetime e) s \<longleftrightarrow> F e s" for e s
    unfolding F_def by (rule join_cond_fields)
  have S: "set ?song_df = set (songs_table cat)" by (rule set_partitionBy)
  have P: "p \<in> set ?plays \<longleftrightarrow> (\<exists>e. p = with_datetime e \<and> e \<in> set ev \<and> page e = Some ''NextSong'')"
    for p by (auto simp: df_filtered_iff)
  have J: "(p, m) \<in> set ?J \<longleftrightarrow>
      (\<exists>e. p = with_datetime e \<and> e \<in> set ev \<and> page e = Some ''NextSong''
        \<and> (case m of None \<Rightarrow> \<forall>s \<in> set (songs_table cat). \<not> F e s
                    | Some s \<Rightarrow> s \<in> set (songs_table cat) \<and> F e s))" for p m
  proof (cases m)
    case None
    then show ?thesis unfolding set_left_outer_join S P using jc by auto
  next
    case (Some s)
    then show ?thesis unfolding set_left_outer_join S P using jc by auto
  qed
  have R: "?R = {select_songplays (with_datetime e, m) 0 | e m.
        e \<in> set ev \<and> page e = Some ''NextSong''
        \<and> (case m of None \<Rightarrow> \<forall>s \<in> set (songs_table cat). \<not> F e s
                    | Some s \<Rightarrow> s \<in> set (songs_table cat) \<and> F e s)}"
    unfolding F_def by (simp only: conj_assoc)
  show ?thesis
  proof (rule set_eqI)
    fix r
    have "r \<in> ?L \<longleftrightarrow> (\<exists>p m. (p, m) \<in> set ?J \<and> r = select_songplays (p, m) 0)"
      unfolding L by auto
    also have "\<dots> \<longleftrightarrow> r \<in> ?R" unfolding J R by blast
    finally show "r \<in> ?L \<longleftrightarrow> r \<in> ?R" .
  qed
qed

lemma row_of_blanked:
  "x \<in> set (map (\<lambda>r. r\<lparr>sp_songplay_id := 0\<rparr>) rows) \<Longrightarrow>
     \<exists>r \<in> set rows. sp_song_id r = sp_song_id x \<and> sp_artist_id r = sp_artist_id x
       \<and> sp_user_id r = sp_user_id x \<and> sp_session_id r = sp_session_id x
       \<and> sp_timestamp r = sp_timestamp x"
  by auto

section \<open>Uniqueness of keys\<close>

text \<open>
  C3. The Songs table that \<open>process_song_data\<close> derives from any catalog data frame has
  no two rows with the same \<open>song_id\<close>, and the Time table that \<open>process_log_data\<close>
  derives from any log data frame has no two rows with the same \<open>datetime\<close>: every other
  column of a Time row is computed from its \<open>datetime\<close>, and whole rows are deduplicated.
\<close>

theorem songs_and_time_keys_unique:
  "distinct (map s_song_id (songs_table song_df))
   \<and> distinct (map t_datetime (time_table (map with_datetime (df_filtered log_df))))"
proof
  show "distinct (map s_song_id (songs_table song_df))"
    unfolding songs_table_def by (rule dropDuplicates_distinct)
next
  let ?rows = "map with_datetime (df_filtered log_df)"
  have "inj_on t_datetime (set (time_table ?rows))"
    by (rule inj_onI) (auto simp: time_table_def dropDuplicates_rows select_time_def)
  then show "distinct (map t_datetime (time_table ?rows))"
    by (simp add: distinct_map time_table_def dropDuplicates_rows_distinct)
qed

section \<open>The number of Songplays rows\<close>

text \<open>
  C1, as stated, fails: two catalog records with different \<open>song_id\<close> and the same artist
  name, title and duration are both rows of Songs, and a play of that song is joined to
  each of them. Here one play gives two Songplays rows.
\<close>

theorem songplays_count_counterexample:
  "map_option length
     (stored_songplays (fst (main Map.empty [cat1, cat1\<lparr>song_id := Some ''S2''\<rparr>] [ev0] 0))
        ''s3a://semsem-dend/songplays/songplays.parquet'') = Some 2
   \<and> length (df_filtered [ev0]) = 1"
  by code_simp

text \<open>
  C1, amended. After \<open>main\<close>, the Songplays table has, for every event whose page is
  \<open>NextSong\<close>, as many rows as Songs rows match it, and one row when none does. So it has
  at least as many rows as there are such events (no play is dropped), and exactly as
  many when no play matches more than one Songs row.
\<close>

theorem songplays_count:
  "\<exists>rows. stored_songplays (fst (main st cat ev n))
        ''s3a://semsem-dend/songplays/songplays.parquet'' = Some rows
     \<and> length rows = (\<Sum>l\<leftarrow>map with_datetime (df_filtered ev).
                        max 1 (length (filter (join_cond l) (songs_table cat))))
     \<and> length (df_filtered ev) \<le> length rows
     \<and> ((\<forall>l \<in> set (map with_datetime (df_filtered ev)).
            length (filter (join_cond l) (songs_table cat)) \<le> 1)
        \<longrightarrow> length rows = length (df_filtered ev))"
proof -
  let ?plays = "map with_datetime (df_filtered ev)"
  let ?song_df = "concat (map snd (partitionBy songs_dir (songs_table cat)))"
  let ?rows = "concat (map snd (partitionBy songplays_dir (songplays_table ?plays ?song_df n)))"
  have same: "length (filter (join_cond l) ?song_df)
      = length (filter (join_cond l) (songs_table cat))" for l
    by (rule length_filter_mset_cong) (rule mset_partitionBy)
  have len: "length ?rows = length (left_outer_join join_cond ?plays ?song_df)"
    by (simp only: length_partitionBy length_songplays_table)
  have "length ?rows = (\<Sum>l\<leftarrow>?plays. max 1 (length (filter (join_cond l) (songs_table cat))))"
    unfolding len length_left_outer_join same ..
  moreover have "length (df_filtered ev) \<le> length ?rows"
    unfolding len using length_left_outer_join_ge [of ?plays join_cond ?song_df] by simp
  moreover have "length ?rows = length (df_filtered ev)"
    if "\<forall>l \<in> set ?plays. length (filter (join_cond l) (songs_table cat)) \<le> 1"
  proof -
    from that have "\<forall>l \<in> set ?plays. length (filter (join_cond l) ?song_df) \<le> 1"
      by (simp only: same)
    then have "length (left_outer_join join_cond ?plays ?song_df) = length ?plays"
      by (rule length_left_outer_join_eq)
    with len show ?thesis by simp
  qed
  ultimately show ?thesis using stored_songplays_main [of st cat ev n] by blast
qed

theorem songplays_count_witness:
  "length (filter (join_cond (with_datetime ev0)) (songs_table [cat1])) \<le> 1
   \<and> map_option length (stored_songplays (fst (main Map.empty [cat1] [ev0] 0))
        ''s3a://semsem-dend/songplays/songplays.parquet'') = Some (length (df_filtered [ev0]))"
proof -
  have h: "length (filter (join_cond (with_datetime ev0)) (songs_table [cat1])) \<le> 1"
    by code_simp
  have d: "df_filtered [ev0] = [ev0]" by code_simp
  from songplays_count [of Map.empty "[cat1]" "[ev0]" 0] h d show ?thesis by auto
qed

section \<open>The Users table\<close>

text \<open>
  C4. \<open>process_log_data\<close> writes as Users table the projection of all events of the log
  data frame (whatever their page) to the five columns \<open>userId\<close>, \<open>firstName\<close>,
  \<open>lastName\<close>, \<open>gender\<close>, \<open>level\<close>, without repeated rows: a row is there exactly when
  some event projects to it. Two events of one user, one with level \<open>free\<close> and one with
  level \<open>paid\<close>, give two different rows with that user's id.
\<close>

theorem users_table_all_events:
  "fst (process_log_data st df n out) (path_of (out @ ''/users/users.parquet''))
     = Some (UsersParquet (users_table df))
   \<and> set (users_table df) = select_users ` set df
   \<and> distinct (users_table df)
   \<and> (\<forall>e1 \<in> set df. \<forall>e2 \<in> set df.
        userId e1 = userId e2 \<and> level e1 = Some ''free'' \<and> level e2 = Some ''paid'' \<longrightarrow>
        select_users e1 \<in> set (users_table df) \<and> select_users e2 \<in> set (users_table df)
        \<and> select_users e1 \<noteq> select_users e2
        \<and> u_userId (select_users e1) = userId e1 \<and> u_userId (select_users e2) = userId e1)"
proof -
  have rows: "set (users_table df) = select_users ` set df"
    by (simp add: users_table_def dropDuplicates_rows)
  have "distinct (users_table df)"
    by (simp add: users_table_def dropDuplicates_rows_distinct)
  moreover have "select_users e1 \<noteq> select_users e2"
    if "level e1 = Some ''free''" "level e2 = Some ''paid''" for e1 e2
    using that by (auto simp: select_users_def)
  moreover have "u_userId (select_users e) = userId e" for e
    by (simp add: select_users_def)
  moreover have "select_users e \<in> set (users_table df)" if "e \<in> set df" for e
    using that rows by blast
  ultimately show ?thesis
    using process_log_data_users [of st df n out] rows by simp
qed

theorem users_table_all_events_witness:
  "set (users_table [ev0\<lparr>page := Some ''Home''\<rparr>, ev0\<lparr>level := Some ''paid''\<rparr>])
     = {select_users ev0, select_users (ev0\<lparr>level := Some ''paid''\<rparr>)}
   \<and> select_users ev0 \<noteq> select_users (ev0\<lparr>level := Some ''paid''\<rparr>)
   \<and> u_userId (select_users ev0) = Some ''26''
   \<and> u_userId (select_users (ev0\<lparr>level := Some ''paid''\<rparr>)) = Some ''26''"
  using users_table_all_events
    [of Map.empty "[ev0\<lparr>page := Some ''Home''\<rparr>, ev0\<lparr>level := Some ''paid''\<rparr>]" 0
      "''s3a://semsem-dend/''"]
  by (simp add: ev0_def select_users_def)

section \<open>The datetime column\<close>



section \<open>The Songplays join\<close>

text \<open>
  C2. The Songplays table that \<open>main\<close> stores, its \<open>songplay_id\<close> apart, consists of one
  projected row for each play and each Songs row whose artist name, title and duration are
  the play's artist, song and length (none of them null), and one projected row with a
  null Songs row for each play that no Songs row matches so. In particular a play with a
  matching Songs row has a stored row with that row's \<open>song_id\<close> and \<open>artist_id\<close>, and a
  play without one has a stored row whose \<open>song_id\<close> and \<open>artist_id\<close> are null.
\<close>

theorem songplays_join:
  "\<exists>rows. stored_songplays (fst (main st cat ev n))
        ''s3a://semsem-dend/songplays/songplays.parquet'' = Some rows
     \<and> set (map (\<lambda>r. r\<lparr>sp_songplay_id := 0\<rparr>) rows)
        = {select_songplays (with_datetime e, m) 0 | e m.
             e \<in> set ev \<and> page e = Some ''NextSong''
             \<and> (case m of
                  None \<Rightarrow> \<forall>s \<in> set (songs_table cat).
                     \<not> (artist e \<noteq> None \<and> artist e = s_artist_name s \<and> song e \<noteq> None
                        \<and> song e = s_title s \<and> length' e \<noteq> None \<and> length' e = s_duration s)
                | Some s \<Rightarrow> s \<in> set (songs_table cat)
                     \<and> artist e \<noteq> None \<and> artist e = s_artist_name s \<and> song e \<noteq> None
                     \<and> song e = s_title s \<and> length' e \<noteq> None \<and> length' e = s_duration s)}
     \<and> (\<forall>e \<in> set ev. \<forall>s \<in> set (songs_table cat).
          page e = Some ''NextSong'' \<and> artist e \<noteq> None \<and> artist e = s_artist_name s
          \<and> song e \<noteq> None \<and> song e = s_title s \<and> length' e \<noteq> None \<and> length' e = s_duration s
          \<longrightarrow> (\<exists>r \<in> set rows. sp_song_id r = s_song_id s \<and> sp_artist_id r = s_artist_id s
                 \<and> sp_user_id r = userId e \<and> sp_session_id r = sessionId e
                 \<and> sp_timestamp r = timestamp (with_datetime e)))
     \<and> (\<forall>e \<in> set ev.
          page e = Some ''NextSong''
          \<and> (\<forall>s \<in> set (songs_table cat).
                \<not> (artist e \<noteq> None \<and> artist e = s_artist_name s \<and> song e \<noteq> None
                   \<and> song e = s_title s \<and> length' e \<noteq> None \<and> length' e = s_duration s))
          \<longrightarrow> (\<exists>r \<in> set rows. sp_song_id r = None \<and> sp_artist_id r = None
                 \<and> sp_user_id r = userId e \<and> sp_session_id r = sessionId e
                 \<and> sp_timestamp r = timestamp (with_datetime e)))"
proof -
  define rows where "rows = concat (map snd (partitionBy songplays_dir
       (songplays_table (map with_datetime (df_filtered ev))
          (concat (map snd (partitionBy songs_dir (songs_table cat)))) n)))"
  have st: "stored_songplays (fst (main st cat ev n))
        ''s3a://semsem-dend/songplays/songplays.parquet'' = Some rows"
    unfolding rows_def by (rule stored_songplays_main)
  have eq: "set (map (\<lambda>r. r\<lparr>sp_songplay_id := 0\<rparr>) rows)
        = {select_songplays (with_datetime e, m) 0 | e m.
             e \<in> set ev \<and> page e = Some ''NextSong''
             \<and> (case m of
                  None \<Rightarrow> \<forall>s \<in> set (songs_table cat).
                     \<not> (artist e \<noteq> None \<and> artist e = s_artist_name s \<and> song e \<noteq> None
                        \<and> song e = s_title s \<and> length' e \<noteq> None \<and> length' e = s_duration s)
                | Some s \<Rightarrow> s \<in> set (songs_table cat)
                     \<and> artist e \<noteq> None \<and> artist e = s_artist_name s \<and> song e \<noteq> None
                     \<and> song e = s_title s \<and> length' e \<noteq> None \<and> length' e = s_duration s)}"
    unfolding rows_def by (rule stored_songplays_rows)
  have matched: "\<exists>r \<in> set rows. sp_song_id r = s_song_id s \<and> sp_artist_id r = s_artist_id s
                 \<and> sp_user_id r = userId e \<and> sp_session_id r = sessionId e
                 \<and> sp_timestamp r = timestamp (with_datetime e)"
    if "e \<in> set ev" "s \<in> set (songs_table cat)" "page e = Some ''NextSong''"
      "artist e \<noteq> None" "artist e = s_artist_name s" "song e \<noteq> None" "song e = s_title s"
      "length' e \<noteq> None" "length' e = s_duration s" for e s
  proof -
    have "select_songplays (with_datetime e, Some s) 0
        \<in> set (map (\<lambda>r. r\<lparr>sp_songplay_id := 0\<rparr>) rows)"
      unfolding eq using that
      by (intro CollectI exI [of _ e] exI [of _ "Some s"]) simp
    from row_of_blanked [OF this] show ?thesis
      by (simp add: select_songplays_def event_with_datetime)
  qed
  have unmatched: "\<exists>r \<in> set rows. sp_song_id r = None \<and> sp_artist_id r = None
                 \<and> sp_user_id r = userId e \<and> sp_session_id r = sessionId e
                 \<and> sp_timestamp r = timestamp (with_datetime e)"
    if "e \<in> set ev" "page e = Some ''NextSong''"
      "\<forall>s \<in> set (songs_table cat).
                \<not> (artist e \<noteq> None \<and> artist e = s_artist_name s \<and> song e \<noteq> None
                   \<and> song e = s_title s \<and> length' e \<noteq> None \<and> length' e = s_duration s)" for e
  proof -
    have "select_songplays (with_datetime e, None) 0
        \<in> set (map (\<lambda>r. r\<lparr>sp_songplay_id := 0\<rparr>) rows)"
      unfolding eq using that
      by (intro CollectI exI [of _ e] exI [of _ None]) simp
    from row_of_blanked [OF this] show ?thesis
      by (simp add: select_songplays_def event_with_datetime)
  qed
  from st eq matched unmatched show ?thesis by (intro exI [of _ rows]) blast
qed

theorem songplays_join_witness:
  "page ev0 = Some ''NextSong'' \<and> select_songs cat1 \<in> set (songs_table [cat1])
   \<and> artist ev0 = s_artist_name (select_songs cat1) \<and> song ev0 = s_title (select_songs cat1)
   \<and> length' ev0 = s_duration (select_songs cat1) \<and> length' ev0 = Some 210.5
   \<and> song (ev0\<lparr>song := Some ''Z''\<rparr>) \<noteq> s_title (select_songs cat1)
   \<and> (case stored_songplays (fst (main Map.empty [cat1] [ev0, ev0\<lparr>song := Some ''Z''\<rparr>] 0))
           ''s3a://semsem-dend/songplays/songplays.parquet'' of
         None \<Rightarrow> False
       | Some rows \<Rightarrow>
           (\<exists>r \<in> set rows. sp_song_id r = Some ''S1'' \<and> sp_artist_id r = Some ''A1'')
           \<and> (\<exists>r \<in> set rows. sp_song_id r = None \<and> sp_artist_id r = None))
   \<and> map_option (map (\<lambda>r. (sp_song_id r, sp_artist_id r)))
        (stored_songplays (fst (main Map.empty [cat1] [ev0, ev0\<lparr>song := Some ''Z''\<rparr>] 0))
           ''s3a://semsem-dend/songplays/songplays.parquet'')
      = Some [(Some ''S1'', Some ''A1''), (None, None)]"
proof -
  let ?ev1 = "ev0\<lparr>song := Some ''Z''\<rparr>"
  let ?s = "select_songs cat1"
  have a: "page ev0 = Some ''NextSong''" "?s \<in> set (songs_table [cat1])"
    "artist ev0 = s_artist_name ?s" "song ev0 = s_title ?s"
    "length' ev0 = s_duration ?s" "length' ev0 = Some 210.5"
    "song ?ev1 \<noteq> s_title ?s"
    by (simp_all add: ev0_def cat1_def select_songs_def songs_table_def)
  have a': "artist ev0 \<noteq> None" "song ev0 \<noteq> None" "length' ev0 \<noteq> None"
    "page ?ev1 = Some ''NextSong''" "set (songs_table [cat1]) = {?s}"
    "s_song_id ?s = Some ''S1''" "s_artist_id ?s = Some ''A1''"
    by (simp_all add: ev0_def cat1_def select_songs_def songs_table_def)
  have b: "map_option (map (\<lambda>r. (sp_song_id r, sp_artist_id r)))
        (stored_songplays (fst (main Map.empty [cat1] [ev0, ?ev1] 0))
           ''s3a://semsem-dend/songplays/songplays.parquet'')
      = Some [(Some ''S1'', Some ''A1''), (None, None)]"
    by code_simp
  from songplays_join [of Map.empty "[cat1]" "[ev0, ?ev1]" 0]
  obtain rows where st: "stored_songplays (fst (main Map.empty [cat1] [ev0, ?ev1] 0))
        ''s3a://semsem-dend/songplays/songplays.parquet'' = Some rows"
    and m: "\<forall>e \<in> set [ev0, ?ev1]. \<forall>s \<in> set (songs_table [cat1]).
          page e = Some ''NextSong'' \<and> artist e \<noteq> None \<and> artist e = s_artist_name s
          \<and> song e \<noteq> None \<and> song e = s_title s \<and> length' e \<noteq> None \<and> length' e = s_duration s
          \<longrightarrow> (\<exists>r \<in> set rows. sp_song_id r = s_song_id s \<and> sp_artist_id r = s_artist_id s
                 \<and> sp_user_id r = userId e \<and> sp_session_id r = sessionId e
                 \<and> sp_timestamp r = timestamp (with_datetime e))"
    and u: "\<forall>e \<in> set [ev0, ?ev1].
          page e = Some ''NextSong''
          \<and> (\<forall>s \<in> set (songs_table [cat1]).
                \<not> (artist e \<noteq> None \<and> artist e = s_artist_name s \<and> song e \<noteq> None
                   \<and> song e = s_title s \<and> length' e \<noteq> None \<and> length' e = s_duration s))
          \<longrightarrow> (\<exists>r \<in> set rows. sp_song_id r = None \<and> sp_artist_id r = None
                 \<and> sp_user_id r = userId e \<and> sp_session_id r = sessionId e
                 \<and> sp_timestamp r = timestamp (with_datetime e))"
    by blast
  have e0: "ev0 \<in> set [ev0, ?ev1]" and e1: "?ev1 \<in> set [ev0, ?ev1]" by simp_all
  have h0: "page ev0 = Some ''NextSong'' \<and> artist ev0 \<noteq> None \<and> artist ev0 = s_artist_name ?s
      \<and> song ev0 \<noteq> None \<and> song ev0 = s_title ?s \<and> length' ev0 \<noteq> None
      \<and> length' ev0 = s_duration ?s"
    using a(1,3,4,5) a'(1,2,3) by (intro conjI)
  from m [rule_format, OF e0 a(2) h0] obtain r where "r \<in> set rows"
    and "sp_song_id r = s_song_id ?s" and "sp_artist_id r = s_artist_id ?s"
    by blast
  then have r0: "\<exists>r \<in> set rows. sp_song_id r = Some ''S1'' \<and> sp_artist_id r = Some ''A1''"
    unfolding a'(6) a'(7) by blast
  have h1: "page ?ev1 = Some ''NextSong''
      \<and> (\<forall>s \<in> set (songs_table [cat1]).
            \<not> (artist ?ev1 \<noteq> None \<and> artist ?ev1 = s_artist_name s \<and> song ?ev1 \<noteq> None
               \<and> song ?ev1 = s_title s \<and> length' ?ev1 \<noteq> None \<and> length' ?ev1 = s_duration s))"
    unfolding a'(5) using a(7) a'(4) by simp
  from u [rule_format, OF e1 h1]
  have r1: "\<exists>r \<in> set rows. sp_song_id r = None \<and> sp_artist_id r = None" by blast
  from r0 r1 a b st show ?thesis by simp
qed

section \<open>The Artists table\<close>

text \<open>
  C5. \<open>process_song_data\<close> writes as Artists table the projection of all records of the
  catalog data frame (not of the Songs table) to \<open>artist_id\<close>, \<open>artist_name\<close> as \<open>name\<close>,
  \<open>artist_location\<close> as \<open>location\<close>, \<open>artist_latitude\<close> as \<open>latitude\<close> and
  \<open>artist_longitude\<close> as \<open>longitude\<close>, without repeated rows: a row is there exactly when
  some record projects to it. Two records with the same \<open>artist_id\<close> that differ in
  location or coordinates give two different rows with that \<open>artist_id\<close>.
\<close>

theorem artists_table_all_records:
  "process_song_data st df out (path_of (out @ ''/artists/artists.parquet''))
     = Some (ArtistsParquet (artists_table df))
   \<and> set (artists_table df) = select_artists ` set df
   \<and> distinct (artists_table df)
   \<and> (\<forall>r1 \<in> set df. \<forall>r2 \<in> set df.
        artist_id r1 = artist_id r2
        \<and> (artist_location r1 \<noteq> artist_location r2 \<or> artist_latitude r1 \<noteq> artist_latitude r2
           \<or> artist_longitude r1 \<noteq> artist_longitude r2) \<longrightarrow>
        select_artists r1 \<in> set (artists_table df) \<and> select_artists r2 \<in> set (artists_table df)
        \<and> select_artists r1 \<noteq> select_artists r2
        \<and> a_artist_id (select_artists r1) = a_artist_id (select_artists r2))"
proof -
  have rows: "set (artists_table df) = select_artists ` set df"
    by (simp add: artists_table_def dropDuplicates_rows)
  have "distinct (artists_table df)"
    by (simp add: artists_table_def dropDuplicates_rows_distinct)
  moreover have "select_artists r1 \<noteq> select_artists r2"
    if "artist_location r1 \<noteq> artist_location r2 \<or> artist_latitude r1 \<noteq> artist_latitude r2
           \<or> artist_longitude r1 \<noteq> artist_longitude r2" for r1 r2
    using that by (auto simp: select_artists_def)
  moreover have "a_artist_id (select_artists r) = artist_id r" for r
    by (simp add: select_artists_def)
  moreover have "select_artists r \<in> set (artists_table df)" if "r \<in> set df" for r
    using that rows by blast
  ultimately show ?thesis
    using process_song_data_artists [of st df out] rows by simp
qed

theorem artists_table_all_records_witness:
  "set (artists_table [cat1, cat1\<lparr>artist_location := Some ''Bergen''\<rparr>])
     = {select_artists cat1, select_artists (cat1\<lparr>artist_location := Some ''Bergen''\<rparr>)}
   \<and> select_artists cat1 \<noteq> select_artists (cat1\<lparr>artist_location := Some ''Bergen''\<rparr>)
   \<and> a_artist_id (select_artists cat1) = Some ''A1''
   \<and> a_artist_id (select_artists (cat1\<lparr>artist_location := Some ''Bergen''\<rparr>)) = Some ''A1''
   \<and> length (songs_table [cat1, cat1\<lparr>artist_location := Some ''Bergen''\<rparr>]) = 1"
  using artists_table_all_records
    [of Map.empty "[cat1, cat1\<lparr>artist_location := Some ''Bergen''\<rparr>]" "''s3a://semsem-dend/''"]
  by (simp add: cat1_def select_artists_def songs_table_def select_songs_def)

section \<open>Users without a user id\<close>

text \<open>
  C10. Nothing is filtered before the Users projection: an event of the log whose
  \<open>userId\<close> is null or the empty text, whatever its page, has its row in the Users table
  that \<open>process_log_data\<close> writes, with that null or empty \<open>userId\<close>.
\<close>

theorem users_table_keeps_null_user:
  "e \<in> set df \<Longrightarrow> userId e = None \<or> userId e = Some '''' \<Longrightarrow>
     fst (process_log_data st df n out) (path_of (out @ ''/users/users.parquet''))
       = Some (UsersParquet (users_table df))
     \<and> select_users e \<in> set (users_table df)
     \<and> u_userId (select_users e) = userId e"
proof -
  assume "e \<in> set df"
  then have "select_users e \<in> set (users_table df)"
    by (simp add: users_table_def dropDuplicates_rows)
  then show ?thesis
    using process_log_data_users [of st df n out] by (simp add: select_users_def)
qed

theorem users_table_keeps_null_user_witness:
  "ev0\<lparr>userId := Some '''', page := Some ''Home''\<rparr>
     \<in> set [ev0, ev0\<lparr>userId := Some '''', page := Some ''Home''\<rparr>]
   \<and> userId (ev0\<lparr>userId := Some '''', page := Some ''Home''\<rparr>) = Some ''''
   \<and> (\<exists>r \<in> set (users_table [ev0, ev0\<lparr>userId := Some '''', page := Some ''Home''\<rparr>]).
        u_userId r = Some '''')"
proof -
  let ?e = "ev0\<lparr>userId := Some '''', page := Some ''Home''\<rparr>"
  have a: "?e \<in> set [ev0, ?e]" by simp
  have b: "userId ?e = None \<or> userId ?e = Some ''''" by simp
  from users_table_keeps_null_user [OF a b, of Map.empty 0 "''s3a://semsem-dend/''"]
  show ?thesis by auto
qed

section \<open>Partition directories\<close>

text \<open>
  C9. After \<open>main\<close>, every row of the Songs table is in the directory
  \<^verbatim>\<open>year=\<close>\<open>y\<close>\<^verbatim>\<open>/artist_id=\<close>\<open>a\<close> of its own year and artist id, and every row of the Time
  table and of the Songplays table is in the directory \<^verbatim>\<open>year=\<close>\<open>y\<close>\<^verbatim>\<open>/month=\<close>\<open>m\<close> of its own
  year and month, where the month is one of the twelve full month names (or null, for an
  event without \<open>ts\<close>), never a number. The directories together hold the rows of the table.
\<close>

theorem partition_paths:
  "(\<exists>ps. fst (main st cat ev n) [''s3a:'', ''semsem-dend'', ''songs'', ''songs.parquet'']
        = Some (SongsParquet ps)
      \<and> set (concat (map snd ps)) = set (songs_table cat)
      \<and> (\<forall>(d, rs) \<in> set ps. \<forall>r \<in> set rs.
            d = [(''year'', pint (s_year r)), (''artist_id'', pstr (s_artist_id r))]))
   \<and> (\<exists>ps. fst (main st cat ev n) [''s3a:'', ''semsem-dend'', ''time'', ''time.parquet'']
        = Some (TimeParquet ps)
      \<and> set (concat (map snd ps)) = set (time_table (map with_datetime (df_filtered ev)))
      \<and> (\<forall>(d, rs) \<in> set ps. \<forall>r \<in> set rs.
            d = [(''year'', pint (t_year r)), (''month'', pstr (t_Month r))]
            \<and> t_Month r \<in> insert None (Some ` set month_names)))
   \<and> (\<exists>ps. fst (main st cat ev n) [''s3a:'', ''semsem-dend'', ''songplays'', ''songplays.parquet'']
        = Some (SongplaysParquet ps)
      \<and> set (concat (map snd ps)) = set (songplays_table (map with_datetime (df_filtered ev))
             (concat (map snd (partitionBy songs_dir (songs_table cat)))) n)
      \<and> (\<forall>(d, rs) \<in> set ps. \<forall>r \<in> set rs.
            d = [(''year'', pint (sp_year r)), (''month'', pstr (sp_month r))]
            \<and> sp_month r \<in> insert None (Some ` set month_names)))"
proof (intro conjI)
  let ?ps = "partitionBy songs_dir (songs_table cat)"
  have "\<forall>(d, rs) \<in> set ?ps. \<forall>r \<in> set rs.
      d = [(''year'', pint (s_year r)), (''artist_id'', pstr (s_artist_id r))]"
    using partitionBy_dir [of _ _ songs_dir "songs_table cat"] by (auto simp: songs_dir_def)
  then show "\<exists>ps. fst (main st cat ev n) [''s3a:'', ''semsem-dend'', ''songs'', ''songs.parquet'']
        = Some (SongsParquet ps)
      \<and> set (concat (map snd ps)) = set (songs_table cat)
      \<and> (\<forall>(d, rs) \<in> set ps. \<forall>r \<in> set rs.
            d = [(''year'', pint (s_year r)), (''artist_id'', pstr (s_artist_id r))])"
    using main_result(3) [of st cat ev n] set_partitionBy [of songs_dir "songs_table cat"]
    by blast
next
  let ?rows = "time_table (map with_datetime (df_filtered ev))"
  let ?ps = "partitionBy time_dir ?rows"
  have "\<forall>(d, rs) \<in> set ?ps. \<forall>r \<in> set rs.
      d = [(''year'', pint (t_year r)), (''month'', pstr (t_Month r))]
      \<and> t_Month r \<in> insert None (Some ` set month_names)"
    using partitionBy_dir [of _ _ time_dir ?rows] time_table_month [of _ "df_filtered ev"]
    by (fastforce simp: time_dir_def)
  then show "\<exists>ps. fst (main st cat ev n) [''s3a:'', ''semsem-dend'', ''time'', ''time.parquet'']
        = Some (TimeParquet ps)
      \<and> set (concat (map snd ps)) = set ?rows
      \<and> (\<forall>(d, rs) \<in> set ps. \<forall>r \<in> set rs.
            d = [(''year'', pint (t_year r)), (''month'', pstr (t_Month r))]
            \<and> t_Month r \<in> insert None (Some ` set month_names))"
    using main_result(6) [of st cat ev n] set_partitionBy [of time_dir ?rows]
    by blast
next
  let ?song_df = "concat (map snd (partitionBy songs_dir (songs_table cat)))"
  let ?rows = "songplays_table (map with_datetime (df_filtered ev)) ?song_df n"
  let ?ps = "partitionBy songplays_dir ?rows"
  have "\<forall>(d, rs) \<in> set ?ps. \<forall>r \<in> set rs.
      d = [(''year'', pint (sp_year r)), (''month'', pstr (sp_month r))]
      \<and> sp_month r \<in> insert None (Some ` set month_names)"
    using partitionBy_dir [of _ _ songplays_dir ?rows]
      songplays_table_month [of _ "df_filtered ev" ?song_df n]
    by (fastforce simp: songplays_dir_def)
  then show "\<exists>ps. fst (main st cat ev n) [''s3a:'', ''semsem-dend'', ''songplays'', ''songplays.parquet'']
        = Some (SongplaysParquet ps)
      \<and> set (concat (map snd ps)) = set (songplays_table (map with_datetime (df_filtered ev))
             (concat (map snd (partitionBy songs_dir (songs_table cat)))) n)
      \<and> (\<forall>(d, rs) \<in> set ps. \<forall>r \<in> set rs.
            d = [(''year'', pint (sp_year r)), (''month'', pstr (sp_month r))]
            \<and> sp_month r \<in> insert None (Some ` set month_names))"
    using main_result(2) [of st cat ev n] set_partitionBy [of songplays_dir ?rows]
    by blast
qed

theorem partition_paths_witness:
  "fst (main Map.empty [cat1] [ev0] 0) [''s3a:'', ''semsem-dend'', ''songs'', ''songs.parquet'']
     = Some (SongsParquet
         [([(''year'', PInt 2001), (''artist_id'', PStr ''A1'')], [select_songs cat1])])
   \<and> map_option (map fst)
        (case fst (main Map.empty [cat1] [ev0] 0)
                [''s3a:'', ''semsem-dend'', ''time'', ''time.parquet''] of
           Some (TimeParquet ps) \<Rightarrow> Some ps | _ \<Rightarrow> None)
      = Some [[(''year'', PInt 2018), (''month'', PStr ''November'')]]
   \<and> map_option (map fst)
        (case fst (main Map.empty [cat1] [ev0] 0)
                [''s3a:'', ''semsem-dend'', ''songplays'', ''songplays.parquet''] of
           Some (SongplaysParquet ps) \<Rightarrow> Some ps | _ \<Rightarrow> None)
      = Some [[(''year'', PInt 2018), (''month'', PStr ''November'')]]"
proof -
  have "fst (main Map.empty [cat1] [ev0] 0) [''s3a:'', ''semsem-dend'', ''songs'', ''songs.parquet'']
     = Some (SongsParquet
         [([(''year'', PInt 2001), (''artist_id'', PStr ''A1'')], [select_songs cat1])])"
    by code_simp
  moreover have "map_option (map fst)
        (case fst (main Map.empty [cat1] [ev0] 0)
                [''s3a:'', ''semsem-dend'', ''time'', ''time.parquet''] of
           Some (TimeParquet ps) \<Rightarrow> Some ps | _ \<Rightarrow> None)
      = Some [[(''year'', PInt 2018), (''month'', PStr ''November'')]]"
    by code_simp
  moreover have "map_option (map fst)
        (case fst (main Map.empty [cat1] [ev0] 0)
                [''s3a:'', ''semsem-dend'', ''songplays'', ''songplays.parquet''] of
           Some (SongplaysParquet ps) \<Rightarrow> Some ps | _ \<Rightarrow> None)
      = Some [[(''year'', PInt 2018), (''month'', PStr ''November'')]]"
    by code_simp
  ultimately show ?thesis
    using partition_paths [of Map.empty "[cat1]" "[ev0]" 0] by simp
qed

section \<open>Reading the Songs table back\<close>

text \<open>
  C7, as stated, fails: \<open>process_log_data\<close> has no guard. Here the sink holds the tables of
  an earlier run on another catalog, and \<open>process_log_data\<close> runs before
  \<open>process_song_data\<close> has written the Songs table of the present catalog. It returns
  without an exception, and the play is joined to the old row: the Songplays row carries
  the \<open>song_id\<close> \<open>OLD\<close> although the Songs table of the present catalog, written
  afterwards, has \<open>S1\<close>, which is what \<open>main\<close> gives in the right order.
\<close>

theorem songs_read_unguarded_counterexample:
  "snd (process_log_data (fst (main Map.empty [cat1\<lparr>song_id := Some ''OLD''\<rparr>] [] 0))
          [ev0] 0 ''s3a://semsem-dend/'') = None
   \<and> map_option (map sp_song_id)
        (stored_songplays
          (process_song_data
             (fst (process_log_data (fst (main Map.empty [cat1\<lparr>song_id := Some ''OLD''\<rparr>] [] 0))
                [ev0] 0 ''s3a://semsem-dend/''))
             [cat1] ''s3a://semsem-dend/'')
          ''s3a://semsem-dend/songplays/songplays.parquet'') = Some [Some ''OLD'']
   \<and> map_option (map s_song_id)
        (stored_songs
          (process_song_data
             (fst (process_log_data (fst (main Map.empty [cat1\<lparr>song_id := Some ''OLD''\<rparr>] [] 0))
                [ev0] 0 ''s3a://semsem-dend/''))
             [cat1] ''s3a://semsem-dend/'')
          ''s3a://semsem-dend/songs/songs.parquet'') = Some [Some ''S1'']
   \<and> map_option (map sp_song_id)
        (stored_songplays
          (fst (main (fst (main Map.empty [cat1\<lparr>song_id := Some ''OLD''\<rparr>] [] 0)) [cat1] [ev0] 0))
          ''s3a://semsem-dend/songplays/songplays.parquet'') = Some [Some ''S1'']"
  by code_simp

text \<open>
  C7, amended. \<open>process_log_data\<close> reads whatever is at the Songs path. When nothing is
  there, the read raises (the path does not exist) after the Users and Time tables have
  been written, and no Songplays table is written. When a Songs table is there, of this
  run or of an earlier one, it is joined without any check and no exception is raised.
  \<open>main\<close> calls \<open>process_song_data\<close> before \<open>process_log_data\<close>, so it never raises and
  joins against the Songs table of its own catalog.
\<close>

theorem songs_read_unguarded:
  "(st (path_of (out @ ''/songs/songs.parquet'')) = None \<longrightarrow>
      snd (process_log_data st df n out) = Some PathDoesNotExist
      \<and> stored_users (fst (process_log_data st df n out)) (out @ ''/users/users.parquet'')
          = Some (users_table df)
      \<and> stored_time (fst (process_log_data st df n out)) (out @ ''/time/time.parquet'')
          = Some (concat (map snd (partitionBy time_dir
               (time_table (map with_datetime (df_filtered df))))))
      \<and> fst (process_log_data st df n out) (path_of (out @ ''/songplays/songplays.parquet''))
          = st (path_of (out @ ''/songplays/songplays.parquet'')))
   \<and> (st (path_of (out @ ''/songs/songs.parquet'')) = Some (SongsParquet ps) \<longrightarrow>
      snd (process_log_data st df n out) = None
      \<and> fst (process_log_data st df n out) (path_of (out @ ''/songplays/songplays.parquet''))
          = Some (SongplaysParquet (partitionBy songplays_dir
               (songplays_table (map with_datetime (df_filtered df)) (concat (map snd ps)) n))))
   \<and> snd (main st cat df n) = None
   \<and> fst (main st cat df n) (path_of ''s3a://semsem-dend/songplays/songplays.parquet'')
       = Some (SongplaysParquet (partitionBy songplays_dir
            (songplays_table (map with_datetime (df_filtered df))
               (concat (map snd (partitionBy songs_dir (songs_table cat)))) n)))"
proof (intro conjI impI)
  assume a: "st (path_of (out @ ''/songs/songs.parquet'')) = None"
  show "snd (process_log_data st df n out) = Some PathDoesNotExist"
    by (simp add: process_log_data_no_songs [where st = st and out = out, OF a])
  show "stored_users (fst (process_log_data st df n out)) (out @ ''/users/users.parquet'')
          = Some (users_table df)"
    by (simp add: stored_users_def process_log_data_users)
  show "stored_time (fst (process_log_data st df n out)) (out @ ''/time/time.parquet'')
          = Some (concat (map snd (partitionBy time_dir
               (time_table (map with_datetime (df_filtered df))))))"
    by (simp add: stored_time_def process_log_data_no_songs [where st = st and out = out, OF a])
  show "fst (process_log_data st df n out) (path_of (out @ ''/songplays/songplays.parquet''))
          = st (path_of (out @ ''/songplays/songplays.parquet''))"
    unfolding process_log_data_no_songs [where st = st and out = out, OF a] out_paths by simp
next
  assume a: "st (path_of (out @ ''/songs/songs.parquet'')) = Some (SongsParquet ps)"
  show "snd (process_log_data st df n out) = None"
    by (simp add: process_log_data_songs [where st = st and out = out, OF a])
  show "fst (process_log_data st df n out) (path_of (out @ ''/songplays/songplays.parquet''))
          = Some (SongplaysParquet (partitionBy songplays_dir
               (songplays_table (map with_datetime (df_filtered df)) (concat (map snd ps)) n)))"
    by (simp add: process_log_data_songs [where st = st and out = out, OF a])
next
  show "snd (main st cat df n) = None" by (rule main_result(1))
next
  have "path_of ''s3a://semsem-dend/songplays/songplays.parquet''
      = [''s3a:'', ''semsem-dend'', ''songplays'', ''songplays.parquet'']"
    by (simp add: path_of_def)
  then show "fst (main st cat df n) (path_of ''s3a://semsem-dend/songplays/songplays.parquet'')
       = Some (SongplaysParquet (partitionBy songplays_dir
            (songplays_table (map with_datetime (df_filtered df))
               (concat (map snd (partitionBy songs_dir (songs_table cat)))) n)))"
    by (simp only: main_result(2))
qed

theorem songs_read_unguarded_witness:
  "Map.empty (path_of (''s3a://semsem-dend/'' @ ''/songs/songs.parquet'')) = None
   \<and> snd (process_log_data Map.empty [ev0] 0 ''s3a://semsem-dend/'') = Some PathDoesNotExist
   \<and> stored_users (fst (process_log_data Map.empty [ev0] 0 ''s3a://semsem-dend/''))
        (''s3a://semsem-dend/'' @ ''/users/users.parquet'') = Some (users_table [ev0])
   \<and> stored_time (fst (process_log_data Map.empty [ev0] 0 ''s3a://semsem-dend/''))
        (''s3a://semsem-dend/'' @ ''/time/time.parquet'') \<noteq> None
   \<and> stored_songplays (fst (process_log_data Map.empty [ev0] 0 ''s3a://semsem-dend/''))
        ''s3a://semsem-dend/songplays/songplays.parquet'' = None
   \<and> process_song_data Map.empty [cat1] ''s3a://semsem-dend/''
        (path_of (''s3a://semsem-dend/'' @ ''/songs/songs.parquet''))
        = Some (SongsParquet (partitionBy songs_dir (songs_table [cat1])))
   \<and> snd (process_log_data (process_song_data Map.empty [cat1] ''s3a://semsem-dend/'')
        [ev0] 0 ''s3a://semsem-dend/'') = None"
proof -
  let ?out = "''s3a://semsem-dend/''"
  have a: "Map.empty (path_of (?out @ ''/songs/songs.parquet'')) = (None :: parquet option)" by simp
  have b: "process_song_data Map.empty [cat1] ?out (path_of (?out @ ''/songs/songs.parquet''))
        = Some (SongsParquet (partitionBy songs_dir (songs_table [cat1])))"
    unfolding process_song_data_def write_parquet_def Let_def main_paths by simp
  have c: "path_of ''s3a://semsem-dend/songplays/songplays.parquet''
      = path_of (?out @ ''/songplays/songplays.parquet'')"
    by (simp add: path_of_def)
  from songs_read_unguarded [of Map.empty ?out "[ev0]" 0 "[]" "[]"] a
  have "snd (process_log_data Map.empty [ev0] 0 ?out) = Some PathDoesNotExist"
    and "stored_users (fst (process_log_data Map.empty [ev0] 0 ?out))
        (?out @ ''/users/users.parquet'') = Some (users_table [ev0])"
    and "stored_time (fst (process_log_data Map.empty [ev0] 0 ?out))
        (?out @ ''/time/time.parquet'') \<noteq> None"
    and "fst (process_log_data Map.empty [ev0] 0 ?out)
        (path_of (?out @ ''/songplays/songplays.parquet'')) = None"
    by simp_all
  moreover from songs_read_unguarded
    [of "process_song_data Map.empty [cat1] ?out" ?out "[ev0]" 0
       "partitionBy songs_dir (songs_table [cat1])" "[]"] b
  have "snd (process_log_data (process_song_data Map.empty [cat1] ?out) [ev0] 0 ?out) = None"
    by simp
  ultimately show ?thesis using a b by (simp add: stored_songplays_def c)
qed

end
